theory Spec2Isabelle
  imports Complex_Main "HOL-Library.Multiset" "HOL-Library.Sublist"
    "HOL-Library.Char_ord" "HOL-Library.List_Lexorder"
begin

section \<open>Python helpers\<close>

text \<open>
  Errors of the Python runtime that the modelled functions can raise. A function that can
  raise returns \<open>py_error + 'a\<close>, with \<open>Inl\<close> for the exception.
\<close>

datatype py_error = AttributeError | KeyError | ModelError

text \<open>
  The slice \<open>xs[:k]\<close>. A negative \<open>k\<close> counts from the end: \<open>xs[:-1]\<close> drops the
  last element.
\<close>

definition slice_to :: "int \<Rightarrow> 'a list \<Rightarrow> 'a list" where
  "slice_to k xs =
     (if 0 \<le> k then take (nat k) xs else take (length xs - nat (- k)) xs)"

section \<open>Session store (src/api/session\_store.py)\<close>

text \<open>
  The store keeps its state in Redis. The Redis commands that \<open>add_event\<close> issues are
  modelled on a record of the three kinds of keys it uses: sorted sets, lists and hashes. A
  key that does not exist is an empty collection, as in Redis. The time-to-live set by
  \<open>expire\<close> is recorded, but no clock is modelled.
\<close>

record event =
  ev_item_id :: string
  ev_event_type :: string
  ev_timestamp :: int
  ev_metadata :: "(string \<times> string) list"

record redis =
  zsets :: "string \<Rightarrow> (event \<times> int) list"
  lists :: "string \<Rightarrow> string list"
  hashes :: "string \<Rightarrow> (string \<times> int) list"
  ttls :: "string \<Rightarrow> nat option"

record session_store =
  client :: redis
  ttl_seconds :: nat

definition zadd :: "string \<Rightarrow> event \<Rightarrow> int \<Rightarrow> redis \<Rightarrow> redis" where
  "zadd key member score_v c =
     c\<lparr>zsets := (zsets c)(key := (member, score_v) # filter (\<lambda>p. fst p \<noteq> member) (zsets c key))\<rparr>"

definition zcard :: "string \<Rightarrow> redis \<Rightarrow> nat" where
  "zcard key c = length (zsets c key)"

definition expire :: "string \<Rightarrow> nat \<Rightarrow> redis \<Rightarrow> redis" where
  "expire key secs c = c\<lparr>ttls := (ttls c)(key := Some secs)\<rparr>"

definition lpush :: "string \<Rightarrow> string \<Rightarrow> redis \<Rightarrow> redis" where
  "lpush key v c = c\<lparr>lists := (lists c)(key := v # lists c key)\<rparr>"

definition ltrim :: "string \<Rightarrow> nat \<Rightarrow> nat \<Rightarrow> redis \<Rightarrow> redis" where
  "ltrim key start stop c =
     c\<lparr>lists := (lists c)(key := take (Suc stop - start) (drop start (lists c key)))\<rparr>"

definition lrange :: "string \<Rightarrow> nat \<Rightarrow> int \<Rightarrow> redis \<Rightarrow> string list" where
  "lrange key start stop c =
     (let l = lists c key;
          e = (if stop < 0 then int (length l) + stop else stop)
      in if e < 0 then [] else take (Suc (nat e) - start) (drop start l))"

fun hincr :: "string \<Rightarrow> int \<Rightarrow> (string \<times> int) list \<Rightarrow> (string \<times> int) list" where
  "hincr f n [] = [(f, n)]"
| "hincr f n ((g, v) # h) = (if g = f then (g, v + n) # h else (g, v) # hincr f n h)"

definition hincrby :: "string \<Rightarrow> string \<Rightarrow> int \<Rightarrow> redis \<Rightarrow> redis" where
  "hincrby key field n c = c\<lparr>hashes := (hashes c)(key := hincr field n (hashes c key))\<rparr>"

definition events_key :: "string \<Rightarrow> string" where
  "events_key session_id = ''session:'' @ session_id @ '':events''"

definition items_key :: "string \<Rightarrow> string" where
  "items_key session_id = ''session:'' @ session_id @ '':items''"

definition counter_key :: "string \<Rightarrow> string" where
  "counter_key session_id = ''session:'' @ session_id @ '':counters''"

text \<open>
  One call of \<open>add_event\<close>. \<open>now\<close> is what \<open>datetime.utcnow()\<close> returns when the
  caller gives no timestamp.
\<close>

record call =
  c_item_id :: string
  c_event_type :: string
  c_timestamp :: "int option"
  c_metadata :: "(string \<times> string) list option"
  c_now :: int

definition add_event :: "session_store \<Rightarrow> string \<Rightarrow> call \<Rightarrow> session_store \<times> nat" where
  "add_event s session_id a =
     (let timestamp = (case c_timestamp a of None \<Rightarrow> c_now a | Some t \<Rightarrow> t);
          ev = \<lparr>ev_item_id = c_item_id a, ev_event_type = c_event_type a,
                ev_timestamp = timestamp,
                ev_metadata = (case c_metadata a of None \<Rightarrow> [] | Some m \<Rightarrow> m)\<rparr>;
          key = events_key session_id;
          c1 = zadd key ev timestamp (client s);
          c2 = expire key (ttl_seconds s) c1;
          ikey = items_key session_id;
          c3 = lpush ikey (c_item_id a) c2;
          c4 = ltrim ikey 0 99 c3;
          c5 = expire ikey (ttl_seconds s) c4;
          ckey = counter_key session_id;
          c6 = hincrby ckey (c_event_type a) 1 c5;
          c7 = expire ckey (ttl_seconds s) c6
      in (s\<lparr>client := c7\<rparr>, zcard key c7))"

definition get_recent_items :: "session_store \<Rightarrow> string \<Rightarrow> int \<Rightarrow> string list" where
  "get_recent_items s session_id n = lrange (items_key session_id) 0 (n - 1) (client s)"

text \<open>A sequence of \<open>add_event\<close> calls on one session, each on the state the last one left.\<close>

fun add_events :: "session_store \<Rightarrow> string \<Rightarrow> call list \<Rightarrow> session_store" where
  "add_events s session_id [] = s"
| "add_events s session_id (a # as) = add_events (fst (add_event s session_id a)) session_id as"

definition recency_list :: "session_store \<Rightarrow> string \<Rightarrow> string list" where
  "recency_list s session_id = lists (client s) (items_key session_id)"

section \<open>Diversity re-ranking (src/utils/helpers.py)\<close>

text \<open>
  A recommendation is a dictionary; the re-ranker reads its \<open>score\<close> (0 when the key is
  absent) and its category (\<open>unknown\<close> when absent). Floats are modelled as reals.
\<close>

record rec_dict =
  rd_item_id :: string
  rd_score :: "real option"
  rd_category :: "string option"

definition get_score :: "rec_dict \<Rightarrow> real" where
  "get_score r = (case rd_score r of None \<Rightarrow> 0 | Some x \<Rightarrow> x)"

definition get_category :: "rec_dict \<Rightarrow> string" where
  "get_category r = (case rd_category r of None \<Rightarrow> ''unknown'' | Some c \<Rightarrow> c)"

definition final_score :: "real \<Rightarrow> string set \<Rightarrow> rec_dict \<Rightarrow> real" where
  "final_score diversity_weight seen_categories r =
     (let base_score = get_score r;
          category = get_category r;
          diversity_penalty = (if category \<in> seen_categories then diversity_weight else 0)
      in base_score * (1 - diversity_penalty))"

text \<open>\<open>max(scores)\<close> of a non-empty list, and \<open>scores.index(v)\<close>: the first position of \<open>v\<close>.\<close>

fun py_max :: "real list \<Rightarrow> real" where
  "py_max [] = 0"
| "py_max (x # xs) = fold max xs x"

fun index_of :: "'a \<Rightarrow> 'a list \<Rightarrow> nat" where
  "index_of v [] = 0"
| "index_of v (x # xs) = (if x = v then 0 else Suc (index_of v xs))"

text \<open>\<open>remaining.pop(i)\<close>: the list without its element at \<open>i\<close>.\<close>

definition pop_at :: "nat \<Rightarrow> 'a list \<Rightarrow> 'a list" where
  "pop_at i xs = take i xs @ drop (Suc i) xs"

lemma py_max_mem: "xs \<noteq> [] \<Longrightarrow> py_max xs \<in> set xs"
proof -
  have "fold max ys y \<in> set (y # ys)" for y :: real and ys
    by (induction ys arbitrary: y) (auto simp: max_def)
  then show "xs \<noteq> [] \<Longrightarrow> py_max xs \<in> set xs"
    by (cases xs) auto
qed

lemma index_of_less: "v \<in> set xs \<Longrightarrow> index_of v xs < length xs"
  by (induction xs) auto

lemma best_idx_less:
  "remaining \<noteq> [] \<Longrightarrow> index_of (py_max (map f remaining)) (map f remaining) < length remaining"
  using index_of_less [of "py_max (map f remaining)" "map f remaining"]
    py_max_mem [of "map f remaining"] by simp

lemma length_pop_at: "i < length xs \<Longrightarrow> length (pop_at i xs) < length xs"
  by (simp add: pop_at_def)

function diversify_loop ::
  "real \<Rightarrow> rec_dict list \<Rightarrow> rec_dict list \<Rightarrow> string set \<Rightarrow> rec_dict list" where
  "diversify_loop diversity_weight selected remaining seen_categories =
     (if remaining = [] then selected
      else
        let scores = map (final_score diversity_weight seen_categories) remaining;
            best_idx = index_of (py_max scores) scores;
            best_rec = remaining ! best_idx
        in diversify_loop diversity_weight (selected @ [best_rec]) (pop_at best_idx remaining)
             (insert (get_category best_rec) seen_categories))"
  by pat_completeness auto
termination
  by (relation "measure (\<lambda>(w, selected, remaining, seen). length remaining)")
    (auto simp: best_idx_less length_pop_at)

declare diversify_loop.simps [simp del]

definition diversify_recommendations :: "rec_dict list \<Rightarrow> real \<Rightarrow> rec_dict list" where
  "diversify_recommendations recommendations diversity_weight =
     (if recommendations = [] \<or> diversity_weight \<le> 0 then recommendations
      else diversify_loop diversity_weight [] recommendations {})"


section \<open>Recommender (src/api/recommender.py)\<close>

text \<open>
  A Python \<open>set\<close> is modelled as a list without duplicates. The order in which Python
  iterates over a set of strings depends on the strings' hashes, which differ from process
  to process; \<open>list(candidates)\<close> is therefore modelled by a parameter \<open>iter_order\<close>, the
  order in which the interpreter happens to enumerate the set.
\<close>

definition set_add :: "'a \<Rightarrow> 'a list \<Rightarrow> 'a list" where
  "set_add x s = (if x \<in> set s then s else s @ [x])"

definition set_update :: "'a list \<Rightarrow> 'a list \<Rightarrow> 'a list" where
  "set_update s xs = fold set_add xs s"

definition py_set :: "'a list \<Rightarrow> 'a list" where
  "py_set xs = set_update [] xs"

definition set_minus :: "'a list \<Rightarrow> 'a list \<Rightarrow> 'a list" where
  "set_minus s t = filter (\<lambda>x. x \<notin> set t) s"

text \<open>A dictionary is an association list in insertion order; \<open>d.get(k, default)\<close>:\<close>

definition dict_get :: "('k \<times> 'v) list \<Rightarrow> 'k \<Rightarrow> 'v \<Rightarrow> 'v" where
  "dict_get d k default_v = (case map_of d k of None \<Rightarrow> default_v | Some v \<Rightarrow> v)"

record session_context =
  recent_items :: "string list"
  recent_events :: "event list"
  event_counts :: "(string \<times> int) list"

text \<open>
  One row of the feature frame that \<open>build_features\<close> makes, without its \<open>item_id\<close>
  column (kept beside the row). Floats are modelled as reals.
\<close>

record feature_row =
  f_item_popularity :: int
  f_item_popularity_log :: real
  f_session_length :: int
  f_session_views :: int
  f_session_clicks :: int
  f_session_add_to_cart :: int
  f_in_recent_items :: int
  f_position_in_session :: int

text \<open>
  The artifacts of a \<open>SessionRecommender\<close>. Each is \<open>None\<close> until \<open>_load_artifacts\<close>
  sets it. The trained ranker is external: \<open>model.predict\<close> is a function from the rows
  to scores that may fail. The similarity frame is a list of rows
  \<open>(item_id_1, item_id_2, similarity)\<close>.
\<close>

record recommender =
  model :: "(feature_row list \<Rightarrow> py_error + real list) option"
  item_similarity :: "(string \<times> string \<times> real) list option"
  item_popularity :: "(string \<times> int) list option"

text \<open>
  \<open>_get_similar_items\<close>: the rows of the item, by similarity descending, the first
  \<open>n\<close> of them. (Which rows of equal similarity come first is the frame library's
  choice; the model keeps their order in the frame.)
\<close>

definition get_similar_items :: "recommender \<Rightarrow> string \<Rightarrow> nat \<Rightarrow> string list" where
  "get_similar_items r item_id n =
     (case item_similarity r of
        None \<Rightarrow> []
      | Some df \<Rightarrow>
          map (\<lambda>row. fst (snd row))
            (take n (sort_key (\<lambda>row. - snd (snd row)) (filter (\<lambda>row. fst row = item_id) df))))"

text \<open>
  \<open>sorted(self.item_popularity.items(), key=lambda x: x[1], reverse=True)[:50]\<close>: Python's
  sort is stable, also with \<open>reverse=True\<close>, so items of equal count keep the order of
  the dictionary.
\<close>

definition popular_items :: "(string \<times> int) list \<Rightarrow> string list" where
  "popular_items pop = map fst (take 50 (sort_key (\<lambda>x. - snd x) pop))"

text \<open>
  The candidate set of \<open>generate_candidates\<close> before its fallback: strategy 1 (the items
  similar to the first five recent items), strategy 2 (the popular items) added, then the
  session's items and the excluded items removed.
\<close>

definition similar_candidates :: "recommender \<Rightarrow> session_context \<Rightarrow> string list" where
  "similar_candidates r session_ctx =
     (if item_similarity r \<noteq> None \<and> length (recent_items session_ctx) > 0
      then fold (\<lambda>item_id c. set_update c (get_similar_items r item_id 20))
             (take 5 (recent_items session_ctx)) []
      else [])"

definition filtered_candidates ::
  "recommender \<Rightarrow> session_context \<Rightarrow> string list option \<Rightarrow> string list" where
  "filtered_candidates r session_ctx exclude_items =
     (let recent = recent_items session_ctx;
          exclude_set = py_set (case exclude_items of None \<Rightarrow> [] | Some xs \<Rightarrow> xs);
          c1 = similar_candidates r session_ctx;
          c2 = (case item_popularity r of
                  None \<Rightarrow> c1
                | Some pop \<Rightarrow> if pop \<noteq> [] then set_update c1 (popular_items pop) else c1)
      in set_minus (set_minus c2 (py_set recent)) exclude_set)"

definition generate_candidates ::
  "(string list \<Rightarrow> string list) \<Rightarrow> recommender \<Rightarrow> session_context \<Rightarrow> int
     \<Rightarrow> string list option \<Rightarrow> py_error + string list" where
  "generate_candidates iter_order r session_ctx k exclude_items =
     (let candidates = filtered_candidates r session_ctx exclude_items
      in if length candidates = 0
         then (case item_popularity r of
                 None \<Rightarrow> Inl AttributeError
               | Some pop \<Rightarrow> Inr (slice_to k (iter_order (py_set (slice_to k (map fst pop))))))
         else Inr (slice_to k (iter_order candidates)))"

text \<open>The dictionary \<open>feat\<close> that \<open>build_features\<close> makes for one candidate.\<close>

definition feat :: "(string \<times> int) list \<Rightarrow> session_context \<Rightarrow> string \<Rightarrow> feature_row" where
  "feat pop session_ctx item =
     \<lparr>f_item_popularity = dict_get pop item 0,
      f_item_popularity_log = ln (1 + real_of_int (dict_get pop item 0)),
      f_session_length = int (length (recent_items session_ctx)),
      f_session_views = dict_get (event_counts session_ctx) ''view'' 0,
      f_session_clicks = dict_get (event_counts session_ctx) ''click'' 0,
      f_session_add_to_cart = dict_get (event_counts session_ctx) ''add_to_cart'' 0,
      f_in_recent_items = (if item \<in> set (recent_items session_ctx) then 1 else 0),
      f_position_in_session =
        (if item \<in> set (recent_items session_ctx)
         then int (index_of item (recent_items session_ctx)) else - 1)\<rparr>"

text \<open>
  \<open>build_features\<close>: with no candidate the loop body never runs; with one, reading
  \<open>self.item_popularity.get\<close> raises \<open>AttributeError\<close> when the table was never loaded.
\<close>

definition build_features ::
  "recommender \<Rightarrow> string list \<Rightarrow> session_context \<Rightarrow> py_error + (string \<times> feature_row) list"
  where
  "build_features r candidates session_ctx =
     (if candidates = [] then Inr []
      else case item_popularity r of
        None \<Rightarrow> Inl AttributeError
      | Some pop \<Rightarrow> Inr (map (\<lambda>item. (item, feat pop session_ctx item)) candidates))"

definition get_reason :: "feature_row \<Rightarrow> string" where
  "get_reason feature_row =
     (if f_in_recent_items feature_row = 1 then ''viewed_recently''
      else if f_item_popularity feature_row > 1000 then ''popular''
      else ''recommended'')"

text \<open>
  \<open>rank_candidates\<close>. An empty frame has no columns, so the fallback's
  \<open>features_df["item_popularity"]\<close> raises \<open>KeyError\<close> on an empty candidate list.
  \<open>zip(candidates, scores)\<close> stops at the shorter of the two; row \<open>idx\<close> of the frame
  is the row of candidate \<open>idx\<close>. The final sort by score, descending, is stable.
\<close>

definition rank_candidates ::
  "recommender \<Rightarrow> string list \<Rightarrow> session_context \<Rightarrow> py_error + (string \<times> real \<times> string) list"
  where
  "rank_candidates r candidates session_ctx =
     (case build_features r candidates session_ctx of
        Inl e \<Rightarrow> Inl e
      | Inr features_df \<Rightarrow>
          (case (case model r of
                   Some m \<Rightarrow> m (map snd features_df)
                 | None \<Rightarrow>
                     if features_df = [] then Inl KeyError
                     else Inr (map (\<lambda>row. real_of_int (f_item_popularity (snd row))) features_df))
           of
             Inl e \<Rightarrow> Inl e
           | Inr scores \<Rightarrow>
               Inr (sort_key (\<lambda>x. - fst (snd x))
                      (map (\<lambda>(item_id, score_v, row). (item_id, score_v, get_reason row))
                         (zip candidates (zip scores (map snd features_df)))))))"

record recommendation =
  item_id :: string
  score :: real
  reason :: string
  rank :: int

fun enumerate_from :: "int \<Rightarrow> 'a list \<Rightarrow> (int \<times> 'a) list" where
  "enumerate_from n [] = []"
| "enumerate_from n (x # xs) = (n, x) # enumerate_from (n + 1) xs"

definition recommend ::
  "(string list \<Rightarrow> string list) \<Rightarrow> recommender \<Rightarrow> session_context \<Rightarrow> int
     \<Rightarrow> string list option \<Rightarrow> py_error + recommendation list" where
  "recommend iter_order r session_ctx k exclude_items =
     (case generate_candidates iter_order r session_ctx (max (k * 5) 100) exclude_items of
        Inl e \<Rightarrow> Inl e
      | Inr candidates \<Rightarrow>
          if length candidates = 0 then Inr []
          else (case rank_candidates r candidates session_ctx of
                  Inl e \<Rightarrow> Inl e
                | Inr ranked \<Rightarrow>
                    Inr (map (\<lambda>(n, item, score_v, why).
                               \<lparr>item_id = item, score = score_v, reason = why, rank = n\<rparr>)
                           (enumerate_from 1 (slice_to k ranked)))))"

section \<open>Feature builder (src/features/feature\_builder.py)\<close>

text \<open>
  A feature dictionary maps feature names to numbers; a name that was never assigned is
  absent (\<open>None\<close>). Integers and floats are both modelled as reals.
  \<open>np.log1p\<close> is \<open>log1p\<close>.
\<close>

type_synonym features = "string \<rightharpoonup> real"

definition log1p :: "real \<Rightarrow> real" where
  "log1p x = ln (1 + x)"

text \<open>
  \<open>np.percentile(a, q)\<close> with numpy's default method (linear interpolation): on the
  sorted array, the value at the fractional index \<open>(n - 1) * q / 100\<close>.
\<close>

definition np_percentile :: "real list \<Rightarrow> real \<Rightarrow> real" where
  "np_percentile a q =
     (let s = sort a;
          n = length s;
          h = (real n - 1) * q / 100;
          lo = nat \<lfloor>h\<rfloor>;
          hi = min (lo + 1) (n - 1)
      in s ! lo + (h - real lo) * (s ! hi - s ! lo))"

record item_meta =
  price :: "real option"
  weight :: "real option"
  category :: "string option"

record feature_builder =
  item_metadata :: "(string \<times> item_meta) list option"

record datetime =
  hour :: nat
  weekday :: nat
  epoch_seconds :: real

definition build_session_features ::
  "string list \<Rightarrow> (string \<times> int) list \<Rightarrow> real option \<Rightarrow> features" where
  "build_session_features session_items counts session_duration_mins =
     (let unique_items = real (length (py_set session_items));
          view_count = real_of_int (dict_get counts ''view'' 0);
          click_count = real_of_int (dict_get counts ''click'' 0);
          add_to_cart_count = real_of_int (dict_get counts ''add_to_cart'' 0);
          purchase_count = real_of_int (dict_get counts ''purchase'' 0);
          total_events = real_of_int (sum_list (map snd counts));
          f1 = Map.empty
               (''session_length'' \<mapsto> real (length session_items),
                ''session_length_log'' \<mapsto> log1p (real (length session_items)),
                ''unique_items'' \<mapsto> unique_items,
                ''item_repetition_rate'' \<mapsto>
                   1 - unique_items / real (max (length session_items) 1),
                ''view_count'' \<mapsto> view_count,
                ''click_count'' \<mapsto> click_count,
                ''add_to_cart_count'' \<mapsto> add_to_cart_count,
                ''purchase_count'' \<mapsto> purchase_count);
          f2 = (if total_events > 0
                then f1(''click_through_rate'' \<mapsto> click_count / total_events,
                        ''add_to_cart_rate'' \<mapsto> add_to_cart_count / total_events,
                        ''conversion_rate'' \<mapsto> purchase_count / total_events)
                else f1(''click_through_rate'' \<mapsto> 0,
                        ''add_to_cart_rate'' \<mapsto> 0,
                        ''conversion_rate'' \<mapsto> 0));
          f3 = f2(''engagement_score'' \<mapsto>
                    view_count * 1 + click_count * 2 + add_to_cart_count * 5
                    + purchase_count * 10)
      in case session_duration_mins of
           None \<Rightarrow> f3
         | Some d \<Rightarrow>
             f3(''session_duration_mins'' \<mapsto> d,
                ''session_duration_log'' \<mapsto> log1p d,
                ''events_per_minute'' \<mapsto> total_events / max d (1 / 10)))"

text \<open>
  \<open>_get_popularity_rank\<close>: the 1-based position of the item in the table sorted by count,
  descending (a stable sort), or one past the end.
\<close>

fun rank_in :: "string \<Rightarrow> nat \<Rightarrow> (string \<times> int) list \<Rightarrow> nat" where
  "rank_in item n [] = n"
| "rank_in item n (x # xs) = (if fst x = item then n else rank_in item (Suc n) xs)"

definition get_popularity_rank :: "string \<Rightarrow> (string \<times> int) list \<Rightarrow> nat" where
  "get_popularity_rank item popularity_dict =
     rank_in item 1 (sort_key (\<lambda>x. - snd x) popularity_dict)"

text \<open>
  \<open>build_item_features\<close>. The percentile: \<open>[(popularity - v) for v in
  all_popularity].count(True)\<close> counts the differences that equal \<open>True\<close>, that is 1;
  that count over the number of items, times 100, is the \<open>q\<close> given to
  \<open>np.percentile\<close>.
\<close>

definition build_item_features ::
  "feature_builder \<Rightarrow> string \<Rightarrow> (string \<times> int) list \<Rightarrow> (string \<times> int) list option
     \<Rightarrow> features" where
  "build_item_features self item popularity_dict category_popularity =
     (let popularity = dict_get popularity_dict item 0;
          all_popularity = map snd popularity_dict;
          f1 = Map.empty
               (''item_popularity'' \<mapsto> real_of_int popularity,
                ''item_popularity_log'' \<mapsto> log1p (real_of_int popularity),
                ''item_popularity_rank'' \<mapsto> real (get_popularity_rank item popularity_dict));
          f2 = (if length all_popularity > 0
                then f1(''item_popularity_percentile'' \<mapsto>
                          np_percentile (map real_of_int all_popularity)
                            (real (count_list (map (\<lambda>v. popularity - v) all_popularity) 1)
                               / real (length all_popularity) * 100))
                else f1(''item_popularity_percentile'' \<mapsto> 0))
      in case item_metadata self of
           None \<Rightarrow> f2
         | Some meta \<Rightarrow>
             (case map_of meta item of
                None \<Rightarrow> f2
              | Some m \<Rightarrow>
                  (let p = (case price m of None \<Rightarrow> 0 | Some x \<Rightarrow> x);
                       f3 = f2(''item_price'' \<mapsto> p,
                               ''item_price_log'' \<mapsto> log1p p,
                               ''item_weight'' \<mapsto> (case weight m of None \<Rightarrow> 0 | Some x \<Rightarrow> x));
                       cat = (case category m of None \<Rightarrow> ''unknown'' | Some c \<Rightarrow> c)
                   in case category_popularity of
                        None \<Rightarrow> f3
                      | Some cp \<Rightarrow>
                          (case map_of cp cat of
                             None \<Rightarrow> f3
                           | Some n \<Rightarrow> f3(''category_popularity'' \<mapsto> real_of_int n)))))"

text \<open>
  \<open>_get_similarity\<close>: the similarity of the first row that pairs the two items, in either
  direction, or 0.
\<close>

definition get_similarity ::
  "string \<Rightarrow> string \<Rightarrow> (string \<times> string \<times> real) list option \<Rightarrow> real" where
  "get_similarity item1 item2 similarity_matrix =
     (case similarity_matrix of
        None \<Rightarrow> 0
      | Some rows \<Rightarrow>
          (case filter (\<lambda>row. (fst row = item1 \<and> fst (snd row) = item2)
                              \<or> (fst row = item2 \<and> fst (snd row) = item1)) rows of
             [] \<Rightarrow> 0
           | row # _ \<Rightarrow> snd (snd row)))"

definition calculate_last_item_similarity ::
  "string \<Rightarrow> string \<Rightarrow> (string \<times> string \<times> real) list option \<Rightarrow> real" where
  "calculate_last_item_similarity item last_item similarity_matrix =
     (if similarity_matrix = None then 0
      else get_similarity item last_item similarity_matrix)"

text \<open>
  \<open>build_interaction_features\<close>. \<open>session_items[::-1].index(item_id)\<close> finds the last
  occurrence. The similarity scores are collected over \<open>set(session_items)\<close>; their
  maximum, mean and sum do not depend on the order of that set.
\<close>

definition build_interaction_features ::
  "string \<Rightarrow> string list \<Rightarrow> (string \<times> string \<times> real) list option \<Rightarrow> features" where
  "build_interaction_features item session_items item_similarity_matrix =
     (let f0 = Map.empty(''in_session'' \<mapsto> (if item \<in> set session_items then 1 else 0));
          f1 = (if item \<in> set session_items
                then
                  let last_occurrence_idx =
                        length session_items - 1 - index_of item (rev session_items)
                  in f0(''last_seen_position'' \<mapsto> real last_occurrence_idx,
                        ''recency_score'' \<mapsto>
                           1 / real (length session_items - last_occurrence_idx),
                        ''item_frequency_in_session'' \<mapsto> real (count_list session_items item))
                else f0(''last_seen_position'' \<mapsto> - 1,
                        ''recency_score'' \<mapsto> 0,
                        ''item_frequency_in_session'' \<mapsto> 0));
          f2 = (if item_similarity_matrix \<noteq> None
                then
                  let similarity_scores =
                        map (\<lambda>sess_item. get_similarity item sess_item item_similarity_matrix)
                          (filter (\<lambda>sess_item. sess_item \<noteq> item) (py_set session_items))
                  in if similarity_scores \<noteq> []
                     then f1(''max_similarity_to_session'' \<mapsto> py_max similarity_scores,
                             ''mean_similarity_to_session'' \<mapsto>
                                sum_list similarity_scores / real (length similarity_scores),
                             ''sum_similarity_to_session'' \<mapsto> sum_list similarity_scores)
                     else f1(''max_similarity_to_session'' \<mapsto> 0,
                             ''mean_similarity_to_session'' \<mapsto> 0,
                             ''sum_similarity_to_session'' \<mapsto> 0)
                else f1)
      in if length session_items > 0
         then f2(''similarity_to_last_item'' \<mapsto>
                   calculate_last_item_similarity item (last session_items)
                     item_similarity_matrix)
         else f2)"

definition build_temporal_features :: "datetime \<Rightarrow> datetime \<Rightarrow> features" where
  "build_temporal_features current_time session_start_time =
     (let session_age = (epoch_seconds current_time - epoch_seconds session_start_time) / 60
      in Map.empty
         (''hour_of_day'' \<mapsto> real (hour current_time),
          ''day_of_week'' \<mapsto> real (weekday current_time),
          ''is_weekend'' \<mapsto> (if weekday current_time \<ge> 5 then 1 else 0),
          ''is_business_hours'' \<mapsto>
             (if 9 \<le> hour current_time \<and> hour current_time \<le> 17 then 1 else 0),
          ''hour_sin'' \<mapsto> sin (2 * pi * real (hour current_time) / 24),
          ''hour_cos'' \<mapsto> cos (2 * pi * real (hour current_time) / 24),
          ''day_sin'' \<mapsto> sin (2 * pi * real (weekday current_time) / 7),
          ''day_cos'' \<mapsto> cos (2 * pi * real (weekday current_time) / 7),
          ''session_age_minutes'' \<mapsto> session_age,
          ''session_age_log'' \<mapsto> log1p session_age))"

text \<open>
  \<open>build_all_features\<close>: the four dictionaries merged by \<open>update\<close>, a later one
  overriding an earlier one.
\<close>

definition build_all_features ::
  "feature_builder \<Rightarrow> string \<Rightarrow> string list \<Rightarrow> (string \<times> int) list \<Rightarrow> (string \<times> int) list
     \<Rightarrow> datetime option \<Rightarrow> datetime option \<Rightarrow> (string \<times> string \<times> real) list option
     \<Rightarrow> (string \<times> int) list option \<Rightarrow> features" where
  "build_all_features self item session_items counts popularity_dict current_time
       session_start_time item_similarity_matrix category_popularity =
     (let all_features =
            build_session_features session_items counts None
            ++ build_item_features self item popularity_dict category_popularity
            ++ build_interaction_features item session_items item_similarity_matrix
      in case (current_time, session_start_time) of
           (Some now, Some start) \<Rightarrow> all_features ++ build_temporal_features now start
         | _ \<Rightarrow> all_features)"

text \<open>
  The feature names that the four parts can assign: those of the session part, those the
  item part always assigns and those it assigns from metadata, those the interaction part
  always assigns, its similarity aggregates, all names of the interaction part, and those
  of the temporal part.
\<close>

definition session_names :: "string set" where
  "session_names =
    {''session_length'', ''session_length_log'', ''unique_items'', ''item_repetition_rate'',
     ''view_count'', ''click_count'', ''add_to_cart_count'', ''purchase_count'',
     ''click_through_rate'', ''add_to_cart_rate'', ''conversion_rate'', ''engagement_score''}"

definition item_names :: "string set" where
  "item_names = {''item_popularity'', ''item_popularity_log'', ''item_popularity_rank'',
     ''item_popularity_percentile''}"

definition metadata_names :: "string set" where
  "metadata_names = {''item_price'', ''item_price_log'', ''item_weight'', ''category_popularity''}"

definition interaction_names :: "string set" where
  "interaction_names = {''in_session'', ''last_seen_position'', ''recency_score'',
     ''item_frequency_in_session''}"

definition similarity_names :: "string set" where
  "similarity_names = {''max_similarity_to_session'', ''mean_similarity_to_session'',
     ''sum_similarity_to_session''}"

definition temporal_names :: "string set" where
  "temporal_names =
     {''hour_of_day'', ''day_of_week'', ''is_weekend'', ''is_business_hours'', ''hour_sin'',
      ''hour_cos'', ''day_sin'', ''day_cos'', ''session_age_minutes'', ''session_age_log''}"

definition interaction_all_names :: "string set" where
  "interaction_all_names = {''in_session'', ''last_seen_position'', ''recency_score'',
     ''item_frequency_in_session'', ''max_similarity_to_session'',
     ''mean_similarity_to_session'', ''sum_similarity_to_session'', ''similarity_to_last_item''}"

text \<open>
  The popularity percentile as the specification words it: the number of items whose
  popularity is at most the candidate's, over the number of items, times 100.
\<close>

definition spec_popularity_percentile :: "string \<Rightarrow> (string \<times> int) list \<Rightarrow> real" where
  "spec_popularity_percentile item popularity_dict =
     real (length (filter (\<lambda>v. v \<le> dict_get popularity_dict item 0) (map snd popularity_dict)))
       / real (length popularity_dict) * 100"

subsection \<open>The candidate order and the rank order as the specification words them\<close>

text \<open>
  The popularity ranking of the specification: count descending, ties by item id ascending.
\<close>

definition popularity_ranking :: "(string \<times> int) list \<Rightarrow> (string \<times> int) list" where
  "popularity_ranking pop = sort_key (\<lambda>x. - snd x) (sort_key fst pop)"

definition first_by_item :: "(string \<times> 'b) list \<Rightarrow> (string \<times> 'b) list" where
  "first_by_item xs = fold (\<lambda>x acc. if fst x \<in> fst ` set acc then acc else acc @ [x]) xs []"

text \<open>
  The candidate sequence of section 4.2 of the specification: the similar items of the five
  most recent session items (the top 20 of each), then the 50 most popular items; items of
  the session and excluded items removed; the first \<open>pool_size\<close> items of the popularity
  ranking when nothing is left; similarity-sourced items first, by descending score and
  then item id, then the popularity-sourced ones in ranking order; cut to \<open>pool_size\<close>.
\<close>

definition spec_candidates ::
  "(string \<times> string \<times> real) list option \<Rightarrow> (string \<times> int) list \<Rightarrow> session_context
     \<Rightarrow> nat \<Rightarrow> string list \<Rightarrow> string list" where
  "spec_candidates similarity pop session_ctx pool_size exclude_set =
     (let recent = recent_items session_ctx;
          keep = (\<lambda>x. fst x \<notin> set recent \<and> fst x \<notin> set exclude_set);
          sim = (case similarity of
                   None \<Rightarrow> []
                 | Some rows \<Rightarrow>
                     first_by_item (concat (map (\<lambda>i.
                       map snd (take 20 (sort_key (\<lambda>row. - snd (snd row))
                         (filter (\<lambda>row. fst row = i) rows)))) (take 5 recent))));
          popular = filter (\<lambda>x. fst x \<notin> fst ` set sim) (take 50 (popularity_ranking pop));
          sim_kept = filter keep sim;
          popular_kept = filter keep popular
      in if sim_kept = [] \<and> popular_kept = []
         then take pool_size (map fst (popularity_ranking pop))
         else take pool_size
                (map fst (sort_key (\<lambda>x. - snd x) (sort_key fst sim_kept)) @ map fst popular_kept))"

text \<open>
  The rank order of the specification: score descending, equal scores by item id ascending.
\<close>

definition spec_rank_order :: "(string \<times> real \<times> string) list \<Rightarrow> bool" where
  "spec_rank_order ranked =
     sorted_wrt (\<lambda>x y. fst (snd x) > fst (snd y) \<or> (fst (snd x) = fst (snd y) \<and> fst x \<le> fst y))
       ranked"

subsection \<open>The candidates as a set\<close>

text \<open>
  What \<open>filtered_candidates\<close> holds, as a set: the similar items of the first five recent
  items and the popular items, without the session's items and the excluded ones.
\<close>

definition candidate_pool ::
  "recommender \<Rightarrow> session_context \<Rightarrow> string list option \<Rightarrow> string set" where
  "candidate_pool r session_ctx exclude_items =
     ((\<Union>i\<in>set (take 5 (recent_items session_ctx)). set (get_similar_items r i 20))
        \<union> (case item_popularity r of None \<Rightarrow> {} | Some pop \<Rightarrow> set (popular_items pop)))
     - set (recent_items session_ctx)
     - (case exclude_items of None \<Rightarrow> {} | Some xs \<Rightarrow> set xs)"

subsection \<open>Example artifacts and sessions\<close>

definition two_items :: recommender where
  "two_items = \<lparr>model = None, item_similarity = None,
     item_popularity = Some [(''a'', 1), (''b'', 5)]\<rparr>"

definition shop :: recommender where
  "shop = \<lparr>model = None, item_similarity = None,
     item_popularity = Some [(''A'', 5), (''B'', 3), (''C'', 1500), (''D'', 1)]\<rparr>"

text \<open>
  Artifacts after a load that raised before the popularity table was set: \<open>unloaded\<close>
  (nothing was loaded) and \<open>similarity_only\<close> (the similarity frame was loaded, the
  popularity file could not be read).
\<close>

definition unloaded :: recommender where
  "unloaded = \<lparr>model = None, item_similarity = None, item_popularity = None\<rparr>"

definition similarity_only :: recommender where
  "similarity_only = \<lparr>model = None, item_similarity = Some [(''A'', ''B'', 9 / 10)],
     item_popularity = None\<rparr>"

definition session_of :: "string list \<Rightarrow> session_context" where
  "session_of items = \<lparr>recent_items = items, recent_events = [], event_counts = []\<rparr>"

definition empty_redis :: redis where
  "empty_redis = \<lparr>zsets = (\<lambda>k. []), lists = (\<lambda>k. []), hashes = (\<lambda>k. []), ttls = (\<lambda>k. None)\<rparr>"

definition view_call :: "string \<Rightarrow> call" where
  "view_call item = \<lparr>c_item_id = item, c_event_type = ''view'', c_timestamp = None,
     c_metadata = None, c_now = 0\<rparr>"

definition fresh_store :: session_store where
  "fresh_store = \<lparr>client = empty_redis, ttl_seconds = 86400\<rparr>"

definition rec_a :: rec_dict where
  "rec_a = \<lparr>rd_item_id = ''a'', rd_score = Some 1, rd_category = Some ''x''\<rparr>"

definition rec_b :: rec_dict where
  "rec_b = \<lparr>rd_item_id = ''b'', rd_score = Some 3, rd_category = Some ''x''\<rparr>"

definition rec_c :: rec_dict where
  "rec_c = \<lparr>rd_item_id = ''c'', rd_score = Some 2, rd_category = None\<rparr>"

section \<open>Properties of the session store\<close>

lemma recency_add_event:
  "recency_list (fst (add_event s sid a)) sid = take 100 (c_item_id a # recency_list s sid)"
  by (simp add: add_event_def recency_list_def Let_def zadd_def expire_def lpush_def ltrim_def
      hincrby_def)

lemma take_append_take: "n \<le> m \<Longrightarrow> take n (xs @ take m ys) = take n (xs @ ys)"
  by (simp add: min_def)

lemma recency_add_events:
  "calls \<noteq> [] \<Longrightarrow>
   recency_list (add_events s sid calls) sid =
     take 100 (rev (map c_item_id calls) @ recency_list s sid)"
proof (induction calls arbitrary: s)
  case Nil
  then show ?case by simp
next
  case (Cons a as)
  show ?case
  proof (cases "as = []")
    case True
    then show ?thesis by (simp add: recency_add_event)
  next
    case False
    then have "recency_list (add_events s sid (a # as)) sid =
      take 100 (rev (map c_item_id as) @ take 100 (c_item_id a # recency_list s sid))"
      using Cons.IH [of "fst (add_event s sid a)"] by (simp add: recency_add_event)
    also have "\<dots> = take 100 (rev (map c_item_id (a # as)) @ recency_list s sid)"
      using take_append_take [of 100 100 "rev (map c_item_id as)"
          "c_item_id a # recency_list s sid"]
      by simp
    finally show ?thesis .
  qed
qed

text \<open>
  Claim C8. After any non-empty sequence of \<open>add_event\<close> calls on a session, from any
  state of the store, the session's recency list has at most 100 entries and its head is
  the item of the last call; a list that is within the cap stays within it; and after 150
  calls the list has exactly 100 entries.
\<close>

theorem recency_list_capped:
  "(length (recency_list s sid) \<le> 100 \<longrightarrow>
      length (recency_list (add_events s sid calls) sid) \<le> 100)
   \<and> (calls \<noteq> [] \<longrightarrow>
        length (recency_list (add_events s sid calls) sid) \<le> 100
      \<and> recency_list (add_events s sid calls) sid \<noteq> []
      \<and> hd (recency_list (add_events s sid calls) sid) = c_item_id (last calls))
   \<and> (length calls = 150 \<longrightarrow> length (recency_list (add_events s sid calls) sid) = 100)"
proof (cases "calls = []")
  case True
  then show ?thesis by simp
next
  case False
  let ?r = "recency_list (add_events s sid calls) sid"
  have eq: "?r = take 100 (rev (map c_item_id calls) @ recency_list s sid)"
    using False by (rule recency_add_events)
  have len: "length ?r \<le> 100"
    by (simp add: eq)
  have ne: "?r \<noteq> []"
    using False by (simp add: eq)
  have hd: "hd ?r = c_item_id (last calls)"
    using False by (simp add: eq hd_append hd_rev last_map)
  have full: "length calls = 150 \<Longrightarrow> length ?r = 100"
    by (simp add: eq)
  from False len ne hd full show ?thesis by simp
qed

theorem recency_list_capped_witness:
  "length (recency_list (add_events fresh_store ''s1'' (replicate 150 (view_call ''p''))) ''s1'')
     = 100
   \<and> hd (recency_list (add_events fresh_store ''s1''
         [view_call ''p1'', view_call ''p2'', view_call ''p3'']) ''s1'') = ''p3''"
proof -
  have n: "length (replicate 150 (view_call ''p'')) = 150"
    by simp
  have a: "length (recency_list (add_events fresh_store ''s1'' (replicate 150 (view_call ''p'')))
      ''s1'') = 100"
    using recency_list_capped [of fresh_store "''s1''" "replicate 150 (view_call ''p'')",
        THEN conjunct2, THEN conjunct2, THEN mp, OF n] .
  have ne: "[view_call ''p1'', view_call ''p2'', view_call ''p3''] \<noteq> []"
    by simp
  have l: "c_item_id (last [view_call ''p1'', view_call ''p2'', view_call ''p3'']) = ''p3''"
    by (simp add: view_call_def)
  have b: "hd (recency_list (add_events fresh_store ''s1''
         [view_call ''p1'', view_call ''p2'', view_call ''p3'']) ''s1'') = ''p3''"
    using recency_list_capped [of fresh_store "''s1''"
        "[view_call ''p1'', view_call ''p2'', view_call ''p3'']",
        THEN conjunct2, THEN conjunct1, THEN mp, OF ne, THEN conjunct2, THEN conjunct2]
    unfolding l .
  from a b show ?thesis by (rule conjI)
qed

section \<open>Properties of the diversity re-ranker\<close>

lemma mset_pop_at: "i < length xs \<Longrightarrow> add_mset (xs ! i) (mset (pop_at i xs)) = mset xs"
proof -
  assume i: "i < length xs"
  then have "xs = take i xs @ xs ! i # drop (Suc i) xs"
    by (rule id_take_nth_drop)
  then have "mset xs = mset (take i xs @ xs ! i # drop (Suc i) xs)"
    by simp
  then show ?thesis
    by (simp add: pop_at_def)
qed

lemma mset_diversify_loop:
  "mset (diversify_loop w selected remaining seen) = mset selected + mset remaining"
proof (induction w selected remaining seen rule: diversify_loop.induct)
  case (1 w selected remaining seen)
  show ?case
  proof (cases "remaining = []")
    case True
    then show ?thesis by (simp add: diversify_loop.simps)
  next
    case False
    define scores where "scores = map (final_score w seen) remaining"
    define i where "i = index_of (py_max scores) scores"
    have i: "i < length remaining"
      unfolding i_def scores_def using False by (rule best_idx_less)
    have "mset (diversify_loop w selected remaining seen) =
        mset (diversify_loop w (selected @ [remaining ! i]) (pop_at i remaining)
          (insert (get_category (remaining ! i)) seen))"
      using False by (subst diversify_loop.simps) (simp add: Let_def i_def scores_def)
    also have "\<dots> = mset (selected @ [remaining ! i]) + mset (pop_at i remaining)"
      using "1.IH" [OF False scores_def i_def refl] .
    also have "\<dots> = mset selected + mset remaining"
      using mset_pop_at [OF i] by simp
    finally show ?thesis .
  qed
qed

text \<open>
  Claim C9. With \<open>diversity_weight = 0\<close> the re-ranker returns its input list as it is.
\<close>

theorem diversify_weight_zero:
  "diversify_recommendations recommendations 0 = recommendations"
  by (simp add: diversify_recommendations_def)

theorem diversify_weight_zero_witness:
  "diversify_recommendations [rec_a, rec_b, rec_c] 0 = [rec_a, rec_b, rec_c]"
  using diversify_weight_zero [of "[rec_a, rec_b, rec_c]"] .

text \<open>
  Claim C10. For every input list and every weight, the output of the re-ranker is a
  permutation of the input: the same elements with the same multiplicities, hence the same
  length.
\<close>

theorem diversify_permutation:
  "mset (diversify_recommendations recommendations diversity_weight) = mset recommendations
   \<and> length (diversify_recommendations recommendations diversity_weight)
       = length recommendations"
proof -
  have m: "mset (diversify_recommendations recommendations diversity_weight)
      = mset recommendations"
    by (simp add: diversify_recommendations_def mset_diversify_loop)
  from m mset_eq_length [OF m] show ?thesis
    by (rule conjI)
qed

theorem diversify_permutation_witness:
  "mset (diversify_recommendations [rec_a, rec_b, rec_c] (1 / 2)) = mset [rec_a, rec_b, rec_c]"
  using diversify_permutation [of "[rec_a, rec_b, rec_c]" "1 / 2"] by simp


section \<open>Properties of the recommender\<close>

subsection \<open>Sets as lists, slices\<close>

lemma set_set_add: "set (set_add x s) = insert x (set s)"
  by (auto simp: set_add_def)

lemma distinct_set_add: "distinct s \<Longrightarrow> distinct (set_add x s)"
  by (simp add: set_add_def)

lemma set_update_props:
  "set (set_update s xs) = set s \<union> set xs \<and> (distinct s \<longrightarrow> distinct (set_update s xs))"
  unfolding set_update_def
  by (induction xs arbitrary: s) (auto simp: set_set_add distinct_set_add)

lemma set_set_update: "set (set_update s xs) = set s \<union> set xs"
  by (simp add: set_update_props)

lemma distinct_set_update: "distinct s \<Longrightarrow> distinct (set_update s xs)"
  by (simp add: set_update_props)

lemma set_py_set: "set (py_set xs) = set xs"
  by (simp add: py_set_def set_set_update)

lemma distinct_py_set: "distinct (py_set xs)"
  by (simp add: py_set_def distinct_set_update)

lemma length_py_set_le: "length (py_set xs) \<le> length xs"
proof -
  have "length (fold set_add xs s) \<le> length s + length xs" for s :: "'a list"
  proof (induction xs arbitrary: s)
    case Nil
    then show ?case by simp
  next
    case (Cons a xs)
    have "length (set_add a s) \<le> Suc (length s)"
      by (simp add: set_add_def)
    with Cons.IH [of "set_add a s"] show ?case
      by simp
  qed
  from this [of "[]"] show ?thesis
    by (simp add: py_set_def set_update_def)
qed

lemma set_set_minus: "set (set_minus s t) = set s - set t"
  by (auto simp: set_minus_def)

lemma distinct_set_minus: "distinct s \<Longrightarrow> distinct (set_minus s t)"
  by (simp add: set_minus_def)

lemma fold_update_props:
  "set (fold (\<lambda>i c. set_update c (g i)) is c0) = set c0 \<union> (\<Union>i\<in>set is. set (g i))
   \<and> (distinct c0 \<longrightarrow> distinct (fold (\<lambda>i c. set_update c (g i)) is c0))"
  by (induction "is" arbitrary: c0) (auto simp: set_set_update distinct_set_update)

lemma get_similar_items_None: "item_similarity r = None \<Longrightarrow> get_similar_items r i n = []"
  by (simp add: get_similar_items_def)

lemma popular_items_Nil: "popular_items [] = []"
  by (simp add: popular_items_def)

lemma filtered_candidates_unfold:
  "filtered_candidates r ctx ex =
     set_minus (set_minus
       (case item_popularity r of
          None \<Rightarrow> similar_candidates r ctx
        | Some pop \<Rightarrow> if pop \<noteq> [] then set_update (similar_candidates r ctx) (popular_items pop)
                     else similar_candidates r ctx)
       (py_set (recent_items ctx)))
       (py_set (case ex of None \<Rightarrow> [] | Some xs \<Rightarrow> xs))"
  by (simp add: filtered_candidates_def Let_def)

lemma similar_candidates_props:
  "set (similar_candidates r ctx)
     = (\<Union>i\<in>set (take 5 (recent_items ctx)). set (get_similar_items r i 20))
   \<and> distinct (similar_candidates r ctx)"
proof (cases "item_similarity r")
  case None
  then show ?thesis by (simp add: similar_candidates_def get_similar_items_None)
next
  case (Some df)
  then show ?thesis
    using fold_update_props [of "\<lambda>i. get_similar_items r i 20" "take 5 (recent_items ctx)" "[]"]
    by (auto simp: similar_candidates_def)
qed

lemma set_filtered_candidates:
  "set (filtered_candidates r ctx ex) = candidate_pool r ctx ex"
  unfolding filtered_candidates_unfold candidate_pool_def
  by (cases "item_popularity r"; cases ex)
    (simp_all add: set_set_minus set_py_set set_set_update similar_candidates_props
      popular_items_Nil)

lemma distinct_filtered_candidates: "distinct (filtered_candidates r ctx ex)"
  unfolding filtered_candidates_unfold
  by (cases "item_popularity r")
    (simp_all add: distinct_set_minus distinct_set_update similar_candidates_props)

lemma set_slice_to: "set (slice_to k xs) \<subseteq> set xs"
  by (auto simp: slice_to_def dest: in_set_takeD)

lemma distinct_slice_to: "distinct xs \<Longrightarrow> distinct (slice_to k xs)"
  by (simp add: slice_to_def)

lemma length_slice_to: "0 \<le> k \<Longrightarrow> length (slice_to k xs) \<le> nat k"
  by (simp add: slice_to_def)

lemma slice_to_all: "int (length xs) \<le> k \<Longrightarrow> slice_to k xs = xs"
  by (simp add: slice_to_def)

lemma length_slice_to_int: "0 \<le> k \<Longrightarrow> int (length (slice_to k xs)) \<le> k"
  using length_slice_to [of k xs] by linarith


subsection \<open>Evaluations on the example artifacts\<close>

lemmas gen_eval = generate_candidates_def filtered_candidates_def similar_candidates_def
  popular_items_def set_update_def set_add_def py_set_def set_minus_def slice_to_def
  two_items_def shop_def session_of_def

lemmas rank_eval = rank_candidates_def build_features_def feat_def dict_get_def get_reason_def
  two_items_def shop_def session_of_def

lemma shop_candidates_all:
  "generate_candidates id shop (session_of []) 100 None = Inr [''C'', ''A'', ''B'', ''D'']"
  by (simp add: gen_eval)

lemma shop_candidates_AB:
  "generate_candidates id shop (session_of [''A'', ''B'']) 100 None = Inr [''C'', ''D'']"
  by (simp add: gen_eval)

lemma shop_candidates_AB_without_C:
  "generate_candidates id shop (session_of [''A'', ''B'']) 100 (Some [''C'']) = Inr [''D'']"
  by (simp add: gen_eval)

lemma shop_pool_AB: "candidate_pool shop (session_of [''A'', ''B'']) None = {''C'', ''D''}"
  by (auto simp add: candidate_pool_def shop_def session_of_def popular_items_def
      get_similar_items_def)

lemma shop_rank_all:
  "rank_candidates shop [''C'', ''A'', ''B'', ''D''] (session_of []) =
     Inr [(''C'', 1500, ''popular''), (''A'', 5, ''recommended''), (''B'', 3, ''recommended''),
          (''D'', 1, ''recommended'')]"
  by (simp add: rank_eval)

lemma shop_rank_AB:
  "rank_candidates shop [''C'', ''D''] (session_of [''A'', ''B'']) =
     Inr [(''C'', 1500, ''popular''), (''D'', 1, ''recommended'')]"
  by (simp add: rank_eval)

lemma shop_rank_DCA:
  "rank_candidates shop [''D'', ''C'', ''A''] (session_of [''A'']) =
     Inr [(''C'', 1500, ''popular''), (''A'', 5, ''viewed_recently''),
          (''D'', 1, ''recommended'')]"
  by (simp add: rank_eval)

subsection \<open>Candidate generation\<close>

text \<open>
  Claim C1 says that the candidates come in a fixed order: similarity-sourced items by
  descending score, then popularity-sourced items by descending count, ties by item id, cut
  to the pool size. The code collects the candidates in a Python set and returns
  \<open>list(candidates)[:k]\<close>, so the order is the set's iteration order. Two inputs where
  the result differs from the order of the specification: on the fallback path with
  \<open>k = 1\<close> (the set has one element, whatever the iteration order: the first key of the
  popularity dictionary, not the most popular item), and on the main path when the set
  happens to be enumerated in the order \<open>a, b\<close>.
\<close>

theorem generate_candidates_order_counterexample:
  "generate_candidates id two_items (session_of [''a'', ''b'']) 1 None = Inr [''a'']
   \<and> spec_candidates None [(''a'', 1), (''b'', 5)] (session_of [''a'', ''b'']) 1 [] = [''b'']
   \<and> generate_candidates id two_items (session_of [''a'', ''b'']) 1 None
       \<noteq> Inr (spec_candidates None [(''a'', 1), (''b'', 5)] (session_of [''a'', ''b'']) 1 [])
   \<and> generate_candidates rev two_items (session_of []) 100 None = Inr [''a'', ''b'']
   \<and> spec_candidates None [(''a'', 1), (''b'', 5)] (session_of []) 100 [] = [''b'', ''a'']
   \<and> generate_candidates rev two_items (session_of []) 100 None
       \<noteq> Inr (spec_candidates None [(''a'', 1), (''b'', 5)] (session_of []) 100 [])"
proof -
  have c1: "generate_candidates id two_items (session_of [''a'', ''b'']) 1 None = Inr [''a'']"
    by (simp add: gen_eval)
  have s1: "spec_candidates None [(''a'', 1), (''b'', 5)] (session_of [''a'', ''b'']) 1 []
      = [''b'']"
    by (simp add: spec_candidates_def popularity_ranking_def session_of_def)
  have c2: "generate_candidates rev two_items (session_of []) 100 None = Inr [''a'', ''b'']"
    by (simp add: gen_eval)
  have s2: "spec_candidates None [(''a'', 1), (''b'', 5)] (session_of []) 100 []
      = [''b'', ''a'']"
    by (simp add: spec_candidates_def popularity_ranking_def session_of_def)
  show ?thesis
    unfolding c1 s1 c2 s2 by simp
qed

text \<open>
  Claim C1, amended. Whatever the iteration order of the set (any permutation of its
  elements), a result of \<open>generate_candidates\<close> has no duplicates and, for \<open>k \<ge> 0\<close>,
  at most \<open>k\<close> items. When some candidate is left after the session's and the excluded
  items are removed, the result holds only such candidates, and all of them when \<open>k\<close> is
  at least their number; otherwise it holds keys of the popularity table. No order of the
  result is determined.
\<close>

theorem generate_candidates_pool:
  assumes perm: "\<And>xs. mset (iter_order xs) = mset xs"
    and res: "generate_candidates iter_order r session_ctx k exclude_items = Inr res"
  shows "distinct res
    \<and> (0 \<le> k \<longrightarrow> length res \<le> nat k)
    \<and> (candidate_pool r session_ctx exclude_items \<noteq> {} \<longrightarrow>
          set res \<subseteq> candidate_pool r session_ctx exclude_items
        \<and> (int (card (candidate_pool r session_ctx exclude_items)) \<le> k \<longrightarrow>
             set res = candidate_pool r session_ctx exclude_items))
    \<and> (candidate_pool r session_ctx exclude_items = {} \<longrightarrow>
          (\<exists>pop. item_popularity r = Some pop \<and> set res \<subseteq> fst ` set pop))"
proof (cases "filtered_candidates r session_ctx exclude_items = []")
  have ps: "set (iter_order xs) = set xs" for xs
    using perm [of xs] by (rule mset_eq_setD)
  have pd: "distinct (iter_order xs) = distinct xs" for xs
    using perm [of xs] by (rule mset_eq_imp_distinct_iff)
  have pl: "length (iter_order xs) = length xs" for xs
    using perm [of xs] by (rule mset_eq_length)
  {
  case True
  then have empty: "candidate_pool r session_ctx exclude_items = {}"
    using set_filtered_candidates [of r session_ctx exclude_items] by simp
  from res True obtain pop where pop: "item_popularity r = Some pop"
    and r: "res = slice_to k (iter_order (py_set (slice_to k (map fst pop))))"
    by (auto simp: generate_candidates_def split: option.splits)
  have d: "distinct res"
    unfolding r by (simp add: distinct_slice_to pd distinct_py_set)
  have l: "0 \<le> k \<Longrightarrow> length res \<le> nat k"
    unfolding r by (rule length_slice_to)
  have "set res \<subseteq> set (map fst pop)"
    unfolding r using set_slice_to [of k "iter_order (py_set (slice_to k (map fst pop)))"]
      set_slice_to [of k "map fst pop"]
    by (auto simp: ps set_py_set)
  with d l empty pop show ?thesis by simp
  next
  case False
  let ?c = "filtered_candidates r session_ctx exclude_items"
  have ne: "candidate_pool r session_ctx exclude_items \<noteq> {}"
    using False set_filtered_candidates [of r session_ctx exclude_items] by auto
  from res False have r: "res = slice_to k (iter_order ?c)"
    by (simp add: generate_candidates_def)
  have d: "distinct res"
    unfolding r by (simp add: distinct_slice_to pd distinct_filtered_candidates)
  have l: "0 \<le> k \<Longrightarrow> length res \<le> nat k"
    unfolding r by (rule length_slice_to)
  have sub: "set res \<subseteq> candidate_pool r session_ctx exclude_items"
    unfolding r using set_slice_to [of k "iter_order ?c"]
    by (simp add: ps set_filtered_candidates)
  have card: "card (candidate_pool r session_ctx exclude_items) = length ?c"
    using distinct_card [OF distinct_filtered_candidates [of r session_ctx exclude_items]]
    by (simp add: set_filtered_candidates)
  have all: "int (card (candidate_pool r session_ctx exclude_items)) \<le> k \<Longrightarrow>
      set res = candidate_pool r session_ctx exclude_items"
    unfolding r card
    by (simp add: slice_to_all pl ps set_filtered_candidates)
  from d l ne sub all show ?thesis by simp
  }
qed


theorem generate_candidates_pool_witness:
  "set [''C'', ''D''] = candidate_pool shop (session_of [''A'', ''B'']) None"
proof -
  have perm: "mset (id xs) = mset xs" for xs :: "string list"
    by simp
  have ne: "candidate_pool shop (session_of [''A'', ''B'']) None \<noteq> {}"
    by (simp add: shop_pool_AB)
  have few: "int (card (candidate_pool shop (session_of [''A'', ''B'']) None)) \<le> 100"
    by (simp add: shop_pool_AB)
  show ?thesis
    using generate_candidates_pool [of id shop "session_of [''A'', ''B'']" 100 None
        "[''C'', ''D'']", OF perm shop_candidates_AB,
        THEN conjunct2, THEN conjunct2, THEN conjunct1, THEN mp, OF ne,
        THEN conjunct2, THEN mp, OF few] .
qed

text \<open>
  Claim C3 says that no returned candidate is an item of the session or an excluded item,
  also on the fallback path. The fallback takes the first \<open>k\<close> keys of the popularity
  dictionary as they are: when every popular item is in the session, or excluded, the
  result consists of such items.
\<close>

theorem candidates_fallback_counterexample:
  "generate_candidates id two_items (session_of [''a'', ''b'']) 100 None = Inr [''a'', ''b'']
   \<and> ''a'' \<in> set (recent_items (session_of [''a'', ''b'']))
   \<and> generate_candidates id two_items (session_of []) 100 (Some [''a'', ''b''])
       = Inr [''a'', ''b'']"
  by (simp add: gen_eval)

text \<open>
  Claim C3, amended. Whatever the iteration order of the set: when some candidate is left
  after the session's and the excluded items are removed (the fallback is not taken), no
  returned candidate is an item of the session or an excluded item. When none is left (the
  fallback is taken) and \<open>k \<ge> 0\<close>, the returned items are exactly the first \<open>k\<close> keys
  of the popularity table, each once, whether or not they are items of the session or
  excluded.
\<close>

theorem candidates_exclude_session_items:
  assumes perm: "\<And>xs. mset (iter_order xs) = mset xs"
    and res: "generate_candidates iter_order r session_ctx k exclude_items = Inr res"
  shows "(filtered_candidates r session_ctx exclude_items \<noteq> [] \<longrightarrow>
            set res \<inter> set (recent_items session_ctx) = {}
          \<and> set res \<inter> (case exclude_items of None \<Rightarrow> {} | Some xs \<Rightarrow> set xs) = {})
       \<and> (filtered_candidates r session_ctx exclude_items = [] \<and> 0 \<le> k \<longrightarrow>
            (\<exists>pop. item_popularity r = Some pop
                 \<and> distinct res
                 \<and> set res = set (take (nat k) (map fst pop))))"
proof (intro conjI impI)
  have ps: "set (iter_order xs) = set xs" for xs
    using perm [of xs] by (rule mset_eq_setD)
  have pd: "distinct (iter_order xs) = distinct xs" for xs
    using perm [of xs] by (rule mset_eq_imp_distinct_iff)
  have pl: "length (iter_order xs) = length xs" for xs
    using perm [of xs] by (rule mset_eq_length)
  {
    assume nonempty: "filtered_candidates r session_ctx exclude_items \<noteq> []"
    from res nonempty
    have r: "res = slice_to k (iter_order (filtered_candidates r session_ctx exclude_items))"
      by (simp add: generate_candidates_def)
    have sub: "set res \<subseteq> candidate_pool r session_ctx exclude_items"
      unfolding r
      using set_slice_to [of k "iter_order (filtered_candidates r session_ctx exclude_items)"]
      by (simp add: ps set_filtered_candidates)
    from sub show "set res \<inter> set (recent_items session_ctx) = {}"
      by (auto simp: candidate_pool_def)
    from sub show "set res \<inter> (case exclude_items of None \<Rightarrow> {} | Some xs \<Rightarrow> set xs) = {}"
      by (auto simp: candidate_pool_def)
  }
  {
    assume fb: "filtered_candidates r session_ctx exclude_items = [] \<and> 0 \<le> k"
    from res fb obtain pop where pop: "item_popularity r = Some pop"
      and r: "res = slice_to k (iter_order (py_set (slice_to k (map fst pop))))"
      by (auto simp: generate_candidates_def split: option.splits)
    from fb have s: "slice_to k (map fst pop) = take (nat k) (map fst pop)"
      by (simp add: slice_to_def)
    let ?keys = "py_set (take (nat k) (map fst pop))"
    have "length ?keys \<le> length (take (nat k) (map fst pop))"
      by (rule length_py_set_le)
    also have "\<dots> \<le> nat k"
      by simp
    finally have "int (length (iter_order ?keys)) \<le> k"
      using fb by (simp add: pl le_nat_iff)
    then have r': "res = iter_order ?keys"
      unfolding r s by (rule slice_to_all)
    have "distinct res \<and> set res = set (take (nat k) (map fst pop))"
      unfolding r' by (simp add: pd ps distinct_py_set set_py_set)
    with pop show "\<exists>pop. item_popularity r = Some pop
                 \<and> distinct res
                 \<and> set res = set (take (nat k) (map fst pop))"
      by blast
  }
qed

lemma two_items_fallback:
  "filtered_candidates two_items (session_of [''a'', ''b'']) None = []"
  by (simp add: gen_eval)

lemma two_items_fallback_result:
  "generate_candidates id two_items (session_of [''a'', ''b'']) 100 None = Inr [''a'', ''b'']"
  by (simp add: gen_eval)

theorem candidates_exclude_session_items_witness:
  "set [''D''] \<inter> set (recent_items (session_of [''A'', ''B''])) = {}
   \<and> set [''D''] \<inter> set [''C''] = {}
   \<and> set [''a'', ''b''] = set (take (nat 100) (map fst [(''a'', 1 :: int), (''b'', 5)]))"
proof -
  have perm: "mset (id xs) = mset xs" for xs :: "string list"
    by simp
  have ne: "filtered_candidates shop (session_of [''A'', ''B'']) (Some [''C'']) \<noteq> []"
    by (simp add: gen_eval)
  have fb: "filtered_candidates two_items (session_of [''a'', ''b'']) None = [] \<and> (0 :: int) \<le> 100"
    by (simp add: two_items_fallback)
  have pop: "item_popularity two_items = Some [(''a'', 1), (''b'', 5)]"
    by (simp add: two_items_def)
  note main = candidates_exclude_session_items [of id shop "session_of [''A'', ''B'']" 100
      "Some [''C'']" "[''D'']", OF perm shop_candidates_AB_without_C,
      THEN conjunct1, THEN mp, OF ne]
  note fallback = candidates_exclude_session_items [of id two_items
      "session_of [''a'', ''b'']" 100 None "[''a'', ''b'']", OF perm two_items_fallback_result,
      THEN conjunct2, THEN mp, OF fb]
  from fallback have "set [''a'', ''b''] = set (take (nat 100) (map fst [(''a'', 1 :: int), (''b'', 5)]))"
    unfolding pop by simp
  with main show ?thesis
    by simp
qed

subsection \<open>Ranking\<close>

lemma build_features_Inr:
  "build_features r cands ctx = Inr df \<Longrightarrow> cands \<noteq> [] \<Longrightarrow>
   \<exists>pop. item_popularity r = Some pop \<and> df = map (\<lambda>i. (i, feat pop ctx i)) cands"
  by (auto simp: build_features_def feat_def split: option.splits if_splits)

lemma build_features_Nil: "build_features r [] ctx = Inr []"
  by (simp add: build_features_def)


lemma subseq_filter_zip:
  "subseq (map fst (filter P (zip xs ys))) xs"
proof (induction xs arbitrary: ys)
  case Nil
  then show ?case by simp
next
  case (Cons x xs)
  then show ?case by (cases ys) auto
qed

lemma rank_candidates_Inr:
  assumes "rank_candidates r cands ctx = Inr res"
  shows "\<exists>scores rows. res = sort_key (\<lambda>x. - fst (snd x))
            (map (\<lambda>(i, s, row). (i, s, get_reason row)) (zip cands (zip scores rows)))
          \<and> (cands \<noteq> [] \<longrightarrow> (\<exists>pop. item_popularity r = Some pop
                \<and> rows = map (feat pop ctx) cands))"
proof -
  from assms obtain df where df: "build_features r cands ctx = Inr df"
    by (auto simp: rank_candidates_def split: sum.splits)
  from assms df obtain scores where
    res: "res = sort_key (\<lambda>x. - fst (snd x))
            (map (\<lambda>(i, s, row). (i, s, get_reason row)) (zip cands (zip scores (map snd df))))"
    by (auto simp: rank_candidates_def split: sum.splits)
  have "cands \<noteq> [] \<Longrightarrow> \<exists>pop. item_popularity r = Some pop
      \<and> map snd df = map (feat pop ctx) cands"
    using build_features_Inr [OF df] by (auto simp: comp_def)
  with res show ?thesis by blast
qed

lemma sorted_desc_sort_key:
  "sorted_wrt (\<lambda>x y. f x \<ge> f y) (sort_key (\<lambda>x. - f x) (xs :: ('a \<times> real \<times> 'c) list))"
    if "f = (\<lambda>x. fst (snd x))"
proof -
  have "sorted (map (\<lambda>x. - f x) (sort_key (\<lambda>x. - f x) xs))"
    by (rule sorted_sort_key)
  then show ?thesis
    by (simp add: sorted_map sorted_wrt_iff_nth_less) 
qed


text \<open>
  Claim C4 says that equal scores are ordered by ascending item id. The sort has the score
  as its only key and is stable, so equal scores keep the order of the candidate list:
  \<open>Z\<close> stays before \<open>Y\<close>.
\<close>

theorem rank_candidates_ties_counterexample:
  "rank_candidates shop [''Z'', ''Y''] (session_of []) =
     Inr [(''Z'', 0, ''recommended''), (''Y'', 0, ''recommended'')]
   \<and> \<not> spec_rank_order [(''Z'', 0, ''recommended''), (''Y'', 0, ''recommended'')]"
  by (simp add: rank_eval spec_rank_order_def)

text \<open>
  Claim C4, amended. A result of \<open>rank_candidates\<close> is sorted by score in descending
  order, and the entries of any one score appear in the order their items have in the
  candidate list. With the fallback scorer, a loaded popularity table and at least one
  candidate, \<open>rank_candidates\<close> returns, one entry per candidate.
\<close>

theorem rank_candidates_sorted_stable:
  "(rank_candidates r candidates session_ctx = Inr ranked \<longrightarrow>
      sorted_wrt (\<lambda>x y. fst (snd x) \<ge> fst (snd y)) ranked
    \<and> (\<forall>s. subseq (map fst (filter (\<lambda>x. fst (snd x) = s) ranked)) candidates))
   \<and> (model r = None \<and> item_popularity r \<noteq> None \<and> candidates \<noteq> [] \<longrightarrow>
        (\<exists>ranked. rank_candidates r candidates session_ctx = Inr ranked
                  \<and> length ranked = length candidates))"
proof (intro conjI impI allI)
  assume a: "rank_candidates r candidates session_ctx = Inr ranked"
  from rank_candidates_Inr [OF a] obtain scores rows where
    res: "ranked = sort_key (\<lambda>x. - fst (snd x))
            (map (\<lambda>(i, s, row). (i, s, get_reason row)) (zip candidates (zip scores rows)))"
    by blast
  show "sorted_wrt (\<lambda>x y. fst (snd x) \<ge> fst (snd y)) ranked"
    unfolding res using sorted_desc_sort_key [OF refl] .
  fix s
  let ?l = "map (\<lambda>(i, s, row). (i, s, get_reason row)) (zip candidates (zip scores rows))"
  have "filter (\<lambda>x. fst (snd x) = s) ranked = filter (\<lambda>x. - fst (snd x) = - s) ranked"
    by simp
  also have "\<dots> = filter (\<lambda>x. - fst (snd x) = - s) ?l"
    unfolding res by (rule sort_key_stable)
  finally have "map fst (filter (\<lambda>x. fst (snd x) = s) ranked)
      = map fst (filter (\<lambda>p. fst (snd p) = s) (zip candidates (zip scores rows)))"
    by (simp add: filter_map comp_def case_prod_beta)
  then show "subseq (map fst (filter (\<lambda>x. fst (snd x) = s) ranked)) candidates"
    by (simp add: subseq_filter_zip)
next
  assume b: "model r = None \<and> item_popularity r \<noteq> None \<and> candidates \<noteq> []"
  then obtain pop where "item_popularity r = Some pop" by auto
  with b show "\<exists>ranked. rank_candidates r candidates session_ctx = Inr ranked
                  \<and> length ranked = length candidates"
    by (simp add: rank_candidates_def build_features_def)
qed


theorem rank_candidates_sorted_stable_witness:
  "sorted_wrt (\<lambda>x y. fst (snd x) \<ge> fst (snd y))
     [(''C'', 1500 :: real, ''popular''), (''A'', 5, ''viewed_recently''),
      (''D'', 1, ''recommended'')]"
  using rank_candidates_sorted_stable [of shop "[''D'', ''C'', ''A'']" "session_of [''A'']"
      "[(''C'', 1500, ''popular''), (''A'', 5, ''viewed_recently''), (''D'', 1, ''recommended'')]",
      THEN conjunct1, THEN mp, OF shop_rank_DCA, THEN conjunct1] .




subsection \<open>Recommendation\<close>

lemma map_fst_enumerate_from:
  "map fst (enumerate_from n xs) = [n..n + int (length xs) - 1]"
proof (induction xs arbitrary: n)
  case Nil
  then show ?case by simp
next
  case (Cons x xs)
  have "[n..n + int (length (x # xs)) - 1] = n # [n + 1..n + 1 + int (length xs) - 1]"
    by (subst upto_rec1) (simp_all add: algebra_simps)
  with Cons.IH [of "n + 1"] show ?case by simp
qed

lemma length_enumerate_from: "length (enumerate_from n xs) = length xs"
  by (induction xs arbitrary: n) auto


text \<open>
  What \<open>recommend\<close> does when the popularity table is loaded. When
  \<open>generate_candidates\<close> returns no candidate, \<open>recommend\<close> returns the empty list. The
  ranks of a result are \<open>1, 2, ...\<close> up to its length, in that order, and for
  \<open>k \<ge> 0\<close> a result has at most \<open>k\<close> items. With the fallback scorer and a loaded
  popularity table (an empty one too), \<open>recommend\<close> returns a result.
\<close>

lemma recommend_ranks:
  "(generate_candidates iter_order r session_ctx (max (k * 5) 100) exclude_items = Inr [] \<longrightarrow>
      recommend iter_order r session_ctx k exclude_items = Inr [])
   \<and> (recommend iter_order r session_ctx k exclude_items = Inr recs \<longrightarrow>
        map rank recs = [1..int (length recs)]
      \<and> (0 \<le> k \<longrightarrow> int (length recs) \<le> k))
   \<and> (model r = None \<and> item_popularity r \<noteq> None \<longrightarrow>
        (\<exists>recs. recommend iter_order r session_ctx k exclude_items = Inr recs))"
proof (intro conjI impI)
  assume "generate_candidates iter_order r session_ctx (max (k * 5) 100) exclude_items = Inr []"
  then show "recommend iter_order r session_ctx k exclude_items = Inr []"
    by (simp add: recommend_def)
next
  assume a: "recommend iter_order r session_ctx k exclude_items = Inr recs"
  have "recs = [] \<or> (\<exists>ranked. recs = map (\<lambda>(n, item, score_v, why).
                               \<lparr>item_id = item, score = score_v, reason = why, rank = n\<rparr>)
                           (enumerate_from 1 (slice_to k ranked)))"
    using a by (auto simp: recommend_def split: sum.splits if_splits)
  then show "map rank recs = [1..int (length recs)]"
  proof
    assume "recs = []" then show ?thesis by simp
  next
    assume "\<exists>ranked. recs = map (\<lambda>(n, item, score_v, why).
                               \<lparr>item_id = item, score = score_v, reason = why, rank = n\<rparr>)
                           (enumerate_from 1 (slice_to k ranked))"
    then obtain ranked where recs: "recs = map (\<lambda>(n, item, score_v, why).
                               \<lparr>item_id = item, score = score_v, reason = why, rank = n\<rparr>)
                           (enumerate_from 1 (slice_to k ranked))" by blast
    have "map rank recs = map fst (enumerate_from 1 (slice_to k ranked))"
      unfolding recs by (simp add: comp_def case_prod_beta)
    then show ?thesis
      by (simp add: map_fst_enumerate_from recs length_enumerate_from)
  qed
  assume k: "0 \<le> k"
  show "int (length recs) \<le> k"
    using a k
    by (auto simp: recommend_def length_enumerate_from length_slice_to_int
        split: sum.splits if_splits)
next
  assume b: "model r = None \<and> item_popularity r \<noteq> None"
  then obtain pop where pop: "item_popularity r = Some pop" by auto
  then have "\<exists>cands. generate_candidates iter_order r session_ctx (max (k * 5) 100)
      exclude_items = Inr cands"
    by (simp add: generate_candidates_def Let_def)
  then obtain cands where c: "generate_candidates iter_order r session_ctx (max (k * 5) 100)
      exclude_items = Inr cands"
    by blast
  show "\<exists>recs. recommend iter_order r session_ctx k exclude_items = Inr recs"
  proof (cases "cands = []")
    case True
    with c show ?thesis by (simp add: recommend_def)
  next
    case False
    with b pop obtain ranked where "rank_candidates r cands session_ctx = Inr ranked"
      by (simp add: rank_candidates_def build_features_def)
    with c False show ?thesis by (simp add: recommend_def)
  qed
qed


lemma similarity_only_candidates:
  "generate_candidates id similarity_only (session_of [''A'']) 100 None = Inr [''B'']"
  by (simp add: generate_candidates_def filtered_candidates_def get_similar_items_def
      similar_candidates_def set_minus_def py_set_def set_update_def set_add_def slice_to_def
      similarity_only_def session_of_def)

lemma similarity_only_rank:
  "rank_candidates similarity_only [''B''] (session_of [''A'']) = Inl AttributeError"
  by (simp add: rank_candidates_def build_features_def similarity_only_def)

text \<open>
  Claim C2. \<open>recommend\<close> is to return at most \<open>k\<close> ranked items with ranks
  \<open>1, 2, ...\<close>, and the empty list rather than an error when no candidates exist. With a
  loaded popularity table it does (lemma \<open>recommend_ranks\<close>). But \<open>_load_artifacts\<close>
  catches an exception of any of its loads and goes on with what was set before:
  \<open>item_popularity\<close> is then still \<open>None\<close>. With no candidate, the fallback of
  \<open>generate_candidates\<close> reads \<open>self.item_popularity.keys()\<close> and raises
  \<open>AttributeError\<close>, where \<open>recommend\<close> is to return the empty list; with candidates
  from the similarity frame, \<open>build_features\<close> raises on
  \<open>self.item_popularity.get\<close>.
\<close>

theorem recommend_unloaded_popularity_evaluation:
  "recommend id unloaded (session_of []) 10 None = Inl AttributeError
   \<and> recommend id similarity_only (session_of [''A'']) 10 None = Inl AttributeError"
proof -
  have a: "recommend id unloaded (session_of []) 10 None = Inl AttributeError"
    by (simp add: recommend_def generate_candidates_def filtered_candidates_def
        similar_candidates_def set_minus_def py_set_def set_update_def unloaded_def
        session_of_def)
  have b: "recommend id similarity_only (session_of [''A'']) 10 None = Inl AttributeError"
    by (simp add: recommend_def similarity_only_candidates similarity_only_rank)
  from a b show ?thesis
    by (rule conjI)
qed

section \<open>Properties of the feature builder\<close>

subsection \<open>The names each part assigns\<close>

lemma dom_session: "dom (build_session_features items counts None) = session_names"
  by (auto simp: build_session_features_def session_names_def Let_def)

lemma dom_item_lower: "item_names \<subseteq> dom (build_item_features self item pop cp)"
  by (auto simp: build_item_features_def item_names_def Let_def split: option.splits)

lemma dom_item_upper:
  "dom (build_item_features self item pop cp) \<subseteq> item_names \<union> metadata_names"
  by (auto simp: build_item_features_def item_names_def metadata_names_def Let_def
      split: option.splits if_splits)

lemma dom_interaction:
  "dom (build_interaction_features item items m) =
     interaction_names
     \<union> (if m \<noteq> None then similarity_names else {})
     \<union> (if items \<noteq> [] then {''similarity_to_last_item''} else {})"
  by (auto simp: build_interaction_features_def interaction_names_def similarity_names_def
      Let_def split: if_splits)

lemma dom_temporal: "dom (build_temporal_features now start) = temporal_names"
  by (auto simp: build_temporal_features_def temporal_names_def Let_def)


lemma lookup_outside_dom: "dom f \<subseteq> S \<Longrightarrow> k \<notin> S \<Longrightarrow> f k = None"
  by (auto simp: domIff)

lemma disjoint_notin: "A \<inter> B = {} \<Longrightarrow> k \<in> A \<Longrightarrow> k \<notin> B"
  by blast

lemma disj_temporal: "interaction_all_names \<inter> temporal_names = {}"
  by (simp add: interaction_all_names_def temporal_names_def)

lemma disj_item: "interaction_all_names \<inter> (item_names \<union> metadata_names) = {}"
  by (simp add: interaction_all_names_def item_names_def metadata_names_def)

lemma disj_session: "interaction_all_names \<inter> session_names = {}"
  by (simp add: interaction_all_names_def session_names_def)

lemma all_features_lookup:
  "build_all_features self item items counts pop now start m cp k =
     (case (case (now, start) of (Some n, Some st) \<Rightarrow> build_temporal_features n st k
            | _ \<Rightarrow> None) of
        Some v \<Rightarrow> Some v
      | None \<Rightarrow>
         (case build_interaction_features item items m k of
            Some v \<Rightarrow> Some v
          | None \<Rightarrow>
             (case build_item_features self item pop cp k of
                Some v \<Rightarrow> Some v
              | None \<Rightarrow> build_session_features items counts None k)))"
  by (simp add: build_all_features_def Let_def map_add_def split: option.splits prod.splits)

lemma interaction_key_of_all:
  assumes "k \<in> interaction_all_names"
  shows "build_all_features self item items counts pop now start m cp k
     = build_interaction_features item items m k"
proof -
  have t: "build_temporal_features n st k = None" for n st
    by (rule lookup_outside_dom [OF equalityD1 [OF dom_temporal [of n st]]
          disjoint_notin [OF disj_temporal assms]])
  have i: "build_item_features self item pop cp k = None"
    by (rule lookup_outside_dom [OF dom_item_upper [of self item pop cp]
          disjoint_notin [OF disj_item assms]])
  have s: "build_session_features items counts None k = None"
    by (rule lookup_outside_dom [OF equalityD1 [OF dom_session [of items counts]]
          disjoint_notin [OF disj_session assms]])
  show ?thesis
    unfolding all_features_lookup
    by (cases now; cases start) (simp_all add: t i s split: option.splits)
qed

lemma all_features_defined_of_part:
  "build_session_features items counts None k \<noteq> None
   \<or> build_item_features self item pop cp k \<noteq> None
   \<or> build_interaction_features item items m k \<noteq> None
   \<Longrightarrow> build_all_features self item items counts pop now start m cp k \<noteq> None"
  unfolding all_features_lookup by (auto split: option.splits prod.splits)

lemma interaction_values:
  "(build_interaction_features item items m ''max_similarity_to_session'' \<noteq> None
       \<longleftrightarrow> m \<noteq> None)
   \<and> (build_interaction_features item items m ''mean_similarity_to_session'' \<noteq> None
       \<longleftrightarrow> m \<noteq> None)
   \<and> (build_interaction_features item items m ''sum_similarity_to_session'' \<noteq> None
       \<longleftrightarrow> m \<noteq> None)
   \<and> (build_interaction_features item items m ''similarity_to_last_item'' \<noteq> None
       \<longleftrightarrow> items \<noteq> [])"
  by (simp add: build_interaction_features_def Let_def)

lemma interaction_zero:
  "m \<noteq> None \<Longrightarrow> set items \<subseteq> {item} \<Longrightarrow>
     build_interaction_features item items m ''max_similarity_to_session'' = Some 0
   \<and> build_interaction_features item items m ''mean_similarity_to_session'' = Some 0
   \<and> build_interaction_features item items m ''sum_similarity_to_session'' = Some 0"
proof -
  assume m: "m \<noteq> None" and sub: "set items \<subseteq> {item}"
  have "filter (\<lambda>sess_item. sess_item \<noteq> item) (py_set items) = []"
    using sub by (auto simp: filter_empty_conv set_py_set)
  with m show ?thesis
    by (simp add: build_interaction_features_def Let_def)
qed

lemma interaction_last_zero:
  "m = None \<Longrightarrow> items \<noteq> [] \<Longrightarrow>
     build_interaction_features item items m ''similarity_to_last_item'' = Some 0"
  by (simp add: build_interaction_features_def Let_def calculate_last_item_similarity_def)

lemma names_mem:
  "''max_similarity_to_session'' \<in> interaction_all_names"
  "''mean_similarity_to_session'' \<in> interaction_all_names"
  "''sum_similarity_to_session'' \<in> interaction_all_names"
  "''similarity_to_last_item'' \<in> interaction_all_names"
  by (simp_all add: interaction_all_names_def)


subsection \<open>Which features are defined\<close>

text \<open>
  Claim C5 says that no feature is ever absent, and that the similarity aggregates and the
  similarity to the last item are present with value 0 when no similarity data is supplied
  or the session is empty. \<open>build_interaction_features\<close> assigns the aggregates only
  under \<open>if item_similarity_matrix is not None\<close> and the similarity to the last item only
  under \<open>if len(session_items) > 0\<close>, and no other part assigns these names: with no
  similarity matrix the aggregates are absent, with an empty session the similarity to the
  last item is absent.
\<close>

theorem similarity_features_absent_counterexample:
  "build_all_features \<lparr>item_metadata = None\<rparr> ''C'' [] [] [(''C'', 10)] None None None None
     ''max_similarity_to_session'' = None
   \<and> build_all_features \<lparr>item_metadata = None\<rparr> ''C'' [] [] [(''C'', 10)] None None None None
     ''similarity_to_last_item'' = None
   \<and> build_all_features \<lparr>item_metadata = None\<rparr> ''C'' [''A''] [] [(''C'', 10)] None None
     None None ''mean_similarity_to_session'' = None
   \<and> build_all_features \<lparr>item_metadata = None\<rparr> ''C'' [] [] [(''C'', 10)] None None
     (Some [(''A'', ''C'', 1 / 2)]) None ''similarity_to_last_item'' = None"
  by (simp add: interaction_key_of_all [OF names_mem(1)] interaction_key_of_all [OF names_mem(2)]
      interaction_key_of_all [OF names_mem(4)] build_interaction_features_def Let_def)

text \<open>
  Claim C5, amended. The feature vector of \<open>build_all_features\<close> always defines the
  session features, the four popularity features of the item and \<open>in_session\<close>,
  \<open>last_seen_position\<close>, \<open>recency_score\<close> and \<open>item_frequency_in_session\<close>. It
  defines the three similarity-to-session aggregates exactly when a similarity matrix is
  supplied, with value 0 when the session has no item other than the candidate; it defines
  \<open>similarity_to_last_item\<close> exactly when the session is not empty, with value 0 when no
  similarity matrix is supplied.
\<close>

theorem all_features_defined:
  fixes self item items counts pop now start m cp
  defines "F \<equiv> build_all_features self item items counts pop now start m cp"
  shows "(\<forall>k \<in> session_names \<union> item_names \<union> interaction_names. F k \<noteq> None)
    \<and> (F ''max_similarity_to_session'' \<noteq> None \<longleftrightarrow> m \<noteq> None)
    \<and> (F ''mean_similarity_to_session'' \<noteq> None \<longleftrightarrow> m \<noteq> None)
    \<and> (F ''sum_similarity_to_session'' \<noteq> None \<longleftrightarrow> m \<noteq> None)
    \<and> (F ''similarity_to_last_item'' \<noteq> None \<longleftrightarrow> items \<noteq> [])
    \<and> (m \<noteq> None \<and> set items \<subseteq> {item} \<longrightarrow>
          F ''max_similarity_to_session'' = Some 0
        \<and> F ''mean_similarity_to_session'' = Some 0
        \<and> F ''sum_similarity_to_session'' = Some 0)
    \<and> (m = None \<and> items \<noteq> [] \<longrightarrow> F ''similarity_to_last_item'' = Some 0)"
proof -
  have core: "F k \<noteq> None" if "k \<in> session_names \<union> item_names \<union> interaction_names" for k
  proof -
    from that have "k \<in> dom (build_session_features items counts None)
        \<or> k \<in> dom (build_item_features self item pop cp)
        \<or> k \<in> dom (build_interaction_features item items m)"
      using dom_session [of items counts] dom_item_lower [of self item pop cp]
        dom_interaction [of item items m]
      by blast
    then show ?thesis
      unfolding F_def by (intro all_features_defined_of_part) (simp add: domIff)
  qed
  have sim: "F k = build_interaction_features item items m k" if "k \<in> interaction_all_names" for k
    unfolding F_def using that by (rule interaction_key_of_all)
  show ?thesis
    using core interaction_values [of item items m] interaction_zero [of m items item]
      interaction_last_zero [of m items item]
    by (simp add: sim names_mem)
qed


theorem all_features_defined_witness:
  "(build_all_features \<lparr>item_metadata = None\<rparr> ''C'' [''C''] [(''view'', 1)] [(''C'', 10)]
      None None (Some [(''A'', ''C'', 1 / 2)]) None ''max_similarity_to_session'' = Some 0)
   \<and> (build_all_features \<lparr>item_metadata = None\<rparr> ''C'' [''C''] [(''view'', 1)] [(''C'', 10)]
      None None (Some [(''A'', ''C'', 1 / 2)]) None ''similarity_to_last_item'' \<noteq> None)"
proof -
  have m: "Some [(''A'', ''C'', 1 / 2 :: real)] \<noteq> None \<and> set [''C''] \<subseteq> {''C''}"
    by simp
  have ne: "[''C''] \<noteq> []"
    by simp
  note t = all_features_defined [of "\<lparr>item_metadata = None\<rparr>" "''C''" "[''C'']"
      "[(''view'', 1)]" "[(''C'', 10)]" None None "Some [(''A'', ''C'', 1 / 2)]" None]
  note rest = t [THEN conjunct2, THEN conjunct2, THEN conjunct2, THEN conjunct2]
  from rest [THEN conjunct2, THEN conjunct1, THEN mp, OF m, THEN conjunct1]
    rest [THEN conjunct1, THEN iffD2, OF ne]
  show ?thesis
    by (rule conjI)
qed

subsection \<open>The popularity percentile\<close>

text \<open>
  Claim C6 says that \<open>item_popularity_percentile\<close> is the share of items whose popularity
  is at most the candidate's, times 100. The code instead counts the items whose popularity
  is exactly one less than the candidate's, and gives that share, times 100, to
  \<open>np.percentile\<close> as the percentile to look up in the popularity values. For item \<open>a\<close>
  of the table \<open>{a: 5, b: 4}\<close> the code yields 4.5, the median of the values, where the
  claim gives 100.
\<close>

theorem popularity_percentile_evaluation:
  "build_item_features \<lparr>item_metadata = None\<rparr> ''a'' [(''a'', 5), (''b'', 4)] None
     ''item_popularity_percentile'' = Some (9 / 2)
   \<and> spec_popularity_percentile ''a'' [(''a'', 5), (''b'', 4)] = 100"
  by (simp add: build_item_features_def np_percentile_def dict_get_def Let_def
      spec_popularity_percentile_def)

end
